theory Spec2Isabelle
  imports Main
begin

section \<open>Python values used by \<open>create_product\<close>\<close>

text \<open>
  The handler of \<^verbatim>\<open>Part1_Correct_Implementation.py\<close> reads the decoded JSON body
  through \<^verbatim>\<open>request.get_json()\<close>. The decoded value is the input of the model:
  \<open>JNull\<close> is Python's \<^verbatim>\<open>None\<close> (also what stands for an absent body), a JSON
  number without fraction or exponent is a Python \<^verbatim>\<open>int\<close>, any other number a
  \<^verbatim>\<open>float\<close>. A float is carried by its \<^verbatim>\<open>repr\<close> text (which identifies it), since
  the handler only ever applies \<^verbatim>\<open>str\<close>, truthiness and \<^verbatim>\<open>isinstance\<close> to it. A dict
  is an association list read with \<open>map_of\<close>. Text is ASCII.
\<close>

datatype json =
    JNull
  | JBool bool
  | JInt int
  | JFloat string
  | JStr string
  | JList "json list"
  | JDict "(string \<times> json) list"

text \<open>Python truthiness, as \<^verbatim>\<open>if not data\<close> tests it.\<close>

fun truthy :: "json \<Rightarrow> bool" where
  "truthy JNull = False"
| "truthy (JBool b) = b"
| "truthy (JInt n) = (n \<noteq> 0)"
| "truthy (JFloat r) = (r \<noteq> ''0.0'' \<and> r \<noteq> ''-0.0'')"
| "truthy (JStr s) = (s \<noteq> [])"
| "truthy (JList xs) = (xs \<noteq> [])"
| "truthy (JDict kvs) = (kvs \<noteq> [])"

subsection \<open>Strings\<close>

definition is_space :: "char \<Rightarrow> bool" where
  \<comment> \<open>\<^verbatim>\<open>str.isspace\<close> on ASCII: TAB, LF, VT, FF, CR, FS, GS, RS, US and the blank.\<close>
  "is_space c = (let n = (of_char c :: nat) in (9 \<le> n \<and> n \<le> 13) \<or> (28 \<le> n \<and> n \<le> 32))"

definition is_digit :: "char \<Rightarrow> bool" where
  "is_digit c = (let n = (of_char c :: nat) in 48 \<le> n \<and> n \<le> 57)"

definition strip :: "string \<Rightarrow> string" where
  \<comment> \<open>\<^verbatim>\<open>str.strip()\<close>: whitespace removed at both ends.\<close>
  "strip s = rev (dropWhile is_space (rev (dropWhile is_space s)))"

definition upper_char :: "char \<Rightarrow> char" where
  "upper_char c = (let n = (of_char c :: nat) in if 97 \<le> n \<and> n \<le> 122 then char_of (n - 32) else c)"

definition lower_char :: "char \<Rightarrow> char" where
  "lower_char c = (let n = (of_char c :: nat) in if 65 \<le> n \<and> n \<le> 90 then char_of (n + 32) else c)"

definition upper :: "string \<Rightarrow> string" where
  "upper s = map upper_char s"

definition lower :: "string \<Rightarrow> string" where
  "lower s = map lower_char s"

fun starts_with :: "string \<Rightarrow> string \<Rightarrow> bool" where
  \<comment> \<open>\<open>starts_with p s\<close>: \<open>p\<close> is a prefix of \<open>s\<close>.\<close>
  "starts_with [] s = True"
| "starts_with (p # ps) [] = False"
| "starts_with (p # ps) (c # cs) = (p = c \<and> starts_with ps cs)"

fun str_in :: "string \<Rightarrow> string \<Rightarrow> bool" where
  \<comment> \<open>Python's \<^verbatim>\<open>p in s\<close> on two strings: \<open>p\<close> occurs in \<open>s\<close> as a substring.\<close>
  "str_in p [] = (p = [])"
| "str_in p (c # cs) = (starts_with p (c # cs) \<or> str_in p cs)"

function str_nat :: "nat \<Rightarrow> string" where
  "str_nat n = (if n < 10 then [char_of (48 + n)] else str_nat (n div 10) @ [char_of (48 + n mod 10)])"
  by pat_completeness auto
termination
  by (relation "measure id") auto

definition str_int :: "int \<Rightarrow> string" where
  \<comment> \<open>\<^verbatim>\<open>str(n)\<close> of a Python int.\<close>
  "str_int n = (if n < 0 then CHR ''-'' # str_nat (nat (- n)) else str_nat (nat n))"

subsection \<open>\<^verbatim>\<open>decimal.Decimal\<close>\<close>

text \<open>
  A \<^verbatim>\<open>Decimal\<close> is a sign, a coefficient and an exponent, or an infinity, or a NaN
  (quiet or signalling, with its diagnostic digits). The constructor is exact: it never
  rounds. The implementation's limits on the sizes of coefficient and exponent are not
  modelled.
\<close>

datatype decimal =
    Finite bool nat int
  | Infinity bool
  | NaN bool bool nat

datatype exn =
    InvalidOperation
  | TypeError
  | AttributeError
  | KeyError
  | IntegrityError string
  | DBError string

definition digits_val :: "string \<Rightarrow> nat" where
  "digits_val ds = foldl (\<lambda>a c. 10 * a + (of_char c - 48)) 0 ds"

definition parse_exponent :: "string \<Rightarrow> int option" where
  \<comment> \<open>The text after the digits and the fraction: empty, or \<^verbatim>\<open>E[-+]?\d+\<close>.\<close>
  "parse_exponent r =
     (case r of
        [] \<Rightarrow> Some 0
      | e # r1 \<Rightarrow>
          if e = CHR ''e'' \<or> e = CHR ''E'' then
            (let (neg, ds) =
                   (case r1 of
                      [] \<Rightarrow> (False, [])
                    | c # cs \<Rightarrow>
                        if c = CHR ''-'' then (True, cs)
                        else if c = CHR ''+'' then (False, cs)
                        else (False, r1))
             in if ds \<noteq> [] \<and> list_all is_digit ds
                then Some (if neg then - int (digits_val ds) else int (digits_val ds))
                else None)
          else None)"

definition parse_number :: "bool \<Rightarrow> string \<Rightarrow> exn + decimal" where
  \<comment> \<open>\<^verbatim>\<open>(?=\d|\.\d)\d*(\.\d*)?(E[-+]?\d+)?\<close>\<close>
  "parse_number sg r =
     (let ip = takeWhile is_digit r;
          r1 = dropWhile is_digit r;
          (fp, r2) =
             (case r1 of
                [] \<Rightarrow> ([], [])
              | c # cs \<Rightarrow>
                  if c = CHR ''.'' then (takeWhile is_digit cs, dropWhile is_digit cs)
                  else ([], r1))
      in if ip = [] \<and> fp = [] then Inl InvalidOperation
         else (case parse_exponent r2 of
                 None \<Rightarrow> Inl InvalidOperation
               | Some e \<Rightarrow> Inr (Finite sg (digits_val (ip @ fp)) (e - int (length fp)))))"

definition parse_special :: "bool \<Rightarrow> string \<Rightarrow> decimal option" where
  \<comment> \<open>\<^verbatim>\<open>Inf(inity)?\<close>, or \<^verbatim>\<open>s?NaN\d*\<close>, case ignored.\<close>
  "parse_special sg r =
     (let l = lower r in
      if l = ''inf'' \<or> l = ''infinity'' then Some (Infinity sg)
      else if starts_with ''nan'' l \<and> list_all is_digit (drop 3 l)
        then Some (NaN sg False (digits_val (drop 3 l)))
      else if starts_with ''snan'' l \<and> list_all is_digit (drop 4 l)
        then Some (NaN sg True (digits_val (drop 4 l)))
      else None)"

definition Decimal :: "string \<Rightarrow> exn + decimal" where
  \<comment> \<open>\<^verbatim>\<open>Decimal(v)\<close> of a string: surrounding whitespace and all underscores are dropped,
      then an optional sign and a number, an infinity or a NaN are read; anything else
      raises \<^verbatim>\<open>InvalidOperation\<close>.\<close>
  "Decimal v =
     (let t = filter (\<lambda>c. c \<noteq> CHR ''_'') (strip v);
          (sg, r) =
             (case t of
                [] \<Rightarrow> (False, [])
              | c # cs \<Rightarrow>
                  if c = CHR ''-'' then (True, cs)
                  else if c = CHR ''+'' then (False, cs)
                  else (False, t))
      in case parse_special sg r of
           Some d \<Rightarrow> Inr d
         | None \<Rightarrow> parse_number sg r)"

definition decimal_lt_zero :: "decimal \<Rightarrow> exn + bool" where
  \<comment> \<open>\<^verbatim>\<open>price < 0\<close>: an ordering comparison with a NaN raises \<^verbatim>\<open>InvalidOperation\<close>.\<close>
  "decimal_lt_zero d =
     (case d of
        Finite sg c e \<Rightarrow> Inr (sg \<and> c \<noteq> 0)
      | Infinity sg \<Rightarrow> Inr sg
      | NaN sg sig diag \<Rightarrow> Inl InvalidOperation)"

definition Decimal_str :: "json \<Rightarrow> exn + decimal" where
  \<comment> \<open>\<^verbatim>\<open>Decimal(str(v))\<close>. \<^verbatim>\<open>str\<close> of a list or of a dict starts with a bracket or a
      brace, which no numeric string does, so \<^verbatim>\<open>Decimal\<close> raises on it.\<close>
  "Decimal_str v =
     (case v of
        JNull \<Rightarrow> Decimal ''None''
      | JBool b \<Rightarrow> Decimal (if b then ''True'' else ''False'')
      | JInt n \<Rightarrow> Decimal (str_int n)
      | JFloat r \<Rightarrow> Decimal r
      | JStr t \<Rightarrow> Decimal t
      | JList xs \<Rightarrow> Inl InvalidOperation
      | JDict kvs \<Rightarrow> Inl InvalidOperation)"

subsection \<open>Containers\<close>

definition py_contains :: "json \<Rightarrow> string \<Rightarrow> exn + bool" where
  \<comment> \<open>\<^verbatim>\<open>field in data\<close>: a key of a dict, an element of a list, a substring of a string;
      \<^verbatim>\<open>TypeError\<close> on a value that is no container.\<close>
  "py_contains data field =
     (case data of
        JDict kvs \<Rightarrow> Inr (map_of kvs field \<noteq> None)
      | JList xs \<Rightarrow> Inr (JStr field \<in> set xs)
      | JStr t \<Rightarrow> Inr (str_in field t)
      | _ \<Rightarrow> Inl TypeError)"

definition py_getitem :: "json \<Rightarrow> string \<Rightarrow> exn + json" where
  \<comment> \<open>\<^verbatim>\<open>data[field]\<close> with a string key: only a dict accepts it.\<close>
  "py_getitem data field =
     (case data of
        JDict kvs \<Rightarrow> (case map_of kvs field of None \<Rightarrow> Inl KeyError | Some v \<Rightarrow> Inr v)
      | _ \<Rightarrow> Inl TypeError)"

definition py_strip :: "json \<Rightarrow> exn + string" where
  \<comment> \<open>\<^verbatim>\<open>v.strip()\<close>: only a string has the method.\<close>
  "py_strip v = (case v of JStr t \<Rightarrow> Inr (strip t) | _ \<Rightarrow> Inl AttributeError)"

definition isinstance_int :: "json \<Rightarrow> bool" where
  \<comment> \<open>\<^verbatim>\<open>isinstance(v, int)\<close>: \<^verbatim>\<open>bool\<close> is a subclass of \<^verbatim>\<open>int\<close>.\<close>
  "isinstance_int v = (case v of JInt n \<Rightarrow> True | JBool b \<Rightarrow> True | _ \<Rightarrow> False)"

definition int_value :: "json \<Rightarrow> int" where
  \<comment> \<open>The number an instance of \<^verbatim>\<open>int\<close> compares as: \<^verbatim>\<open>True\<close> is 1, \<^verbatim>\<open>False\<close> is 0.\<close>
  "int_value v = (case v of JInt n \<Rightarrow> n | JBool b \<Rightarrow> (if b then 1 else 0) | _ \<Rightarrow> 0)"

section \<open>The persistence layer\<close>

record product =
  pid :: "nat option"
  name :: string
  sku :: string
  price :: decimal
  warehouse_id :: json

record inventory =
  product_id :: "nat option"
  inv_warehouse_id :: json
  quantity :: json

text \<open>
  The tables, the session (rows added and not yet committed, and whether a transaction
  is open) and the server's error log. An Inventory row's own identity is assigned by
  the persistence layer and never read by the handler; it is left out.
\<close>

record state =
  products :: "product list"
  inventories :: "inventory list"
  warehouses :: "int list"
  pending_products :: "product list"
  pending_inventories :: "inventory list"
  in_txn :: bool
  error_log :: "exn list"

text \<open>
  What the handler does not decide: how the driver reads a primary key that is not an
  integer (it raises, matches no row, or reads it as an id), and the failures of the
  database (a lost connection, a violated constraint, ...) at each call into it.
  \<^verbatim>\<open>begin()\<close> and the lookup write no row, so they raise no \<^verbatim>\<open>IntegrityError\<close>.
\<close>

record env =
  coerce_key :: "json \<Rightarrow> string + int option"
  select_fault :: "string option"
  begin_fault :: "string option"
  flush_fault :: "exn option"
  commit_fault :: "exn option"

definition Warehouse_query_get :: "env \<Rightarrow> state \<Rightarrow> json \<Rightarrow> exn + bool" where
  \<comment> \<open>\<^verbatim>\<open>Warehouse.query.get(k)\<close>: whether a row was found (the row itself is only tested
      for truth).\<close>
  "Warehouse_query_get E s k =
     (case select_fault E of
        Some m \<Rightarrow> Inl (DBError m)
      | None \<Rightarrow>
          (case k of
             JInt n \<Rightarrow> Inr (n \<in> set (warehouses s))
           | _ \<Rightarrow>
               (case coerce_key E k of
                  Inl m \<Rightarrow> Inl (DBError m)
                | Inr None \<Rightarrow> Inr False
                | Inr (Some n) \<Rightarrow> Inr (n \<in> set (warehouses s)))))"

definition sku_violation :: string where
  \<comment> \<open>Modelled from the spec: the declaration of the Product table is not in the source.
      The spec has sku "globally unique", "enforced by the persistence layer", with a
      violation whose message "references the sku constraint".\<close>
  "sku_violation = ''UNIQUE constraint failed: product.sku''"

definition fresh_id :: "product list \<Rightarrow> nat" where
  \<comment> \<open>Modelled from the spec: a "system-assigned id", here one above every id seen.\<close>
  "fresh_id seen = Suc (foldr max (List.map_filter pid seen) 0)"

fun insert_products :: "product list \<Rightarrow> product list \<Rightarrow> exn + product list" where
  \<comment> \<open>The INSERTs of a flush: each pending product without an id is checked against the
      rows seen so far and gets its id.\<close>
  "insert_products seen [] = Inr []"
| "insert_products seen (p # ps) =
     (if pid p \<noteq> None then
        (case insert_products (seen @ [p]) ps of Inl e \<Rightarrow> Inl e | Inr qs \<Rightarrow> Inr (p # qs))
      else if sku p \<in> set (map sku seen) then Inl (IntegrityError sku_violation)
      else
        (let q = p\<lparr>pid := Some (fresh_id seen)\<rparr>
         in case insert_products (seen @ [q]) ps of Inl e \<Rightarrow> Inl e | Inr qs \<Rightarrow> Inr (q # qs)))"

definition session_begin :: "env \<Rightarrow> state \<Rightarrow> exn + state" where
  "session_begin E s =
     (case begin_fault E of Some m \<Rightarrow> Inl (DBError m) | None \<Rightarrow> Inr (s\<lparr>in_txn := True\<rparr>))"

definition session_add_product :: "product \<Rightarrow> state \<Rightarrow> nat \<times> state" where
  \<comment> \<open>\<^verbatim>\<open>db.session.add(product)\<close>; the position returned stands for the reference the
      handler keeps to the object.\<close>
  "session_add_product p s =
     (length (pending_products s), s\<lparr>pending_products := pending_products s @ [p]\<rparr>)"

definition session_add_inventory :: "inventory \<Rightarrow> state \<Rightarrow> state" where
  "session_add_inventory i s = s\<lparr>pending_inventories := pending_inventories s @ [i]\<rparr>"

definition session_flush :: "env \<Rightarrow> state \<Rightarrow> exn + state" where
  "session_flush E s =
     (case flush_fault E of
        Some e \<Rightarrow> Inl e
      | None \<Rightarrow>
          (case insert_products (products s) (pending_products s) of
             Inl e \<Rightarrow> Inl e
           | Inr ps \<Rightarrow> Inr (s\<lparr>pending_products := ps\<rparr>)))"

definition session_commit :: "env \<Rightarrow> state \<Rightarrow> exn + state" where
  \<comment> \<open>A commit flushes what is left and makes the pending rows durable, all or none.\<close>
  "session_commit E s =
     (case commit_fault E of
        Some e \<Rightarrow> Inl e
      | None \<Rightarrow>
          (case insert_products (products s) (pending_products s) of
             Inl e \<Rightarrow> Inl e
           | Inr ps \<Rightarrow>
               Inr (s\<lparr>products := products s @ ps,
                      inventories := inventories s @ pending_inventories s,
                      pending_products := [], pending_inventories := [],
                      in_txn := False\<rparr>)))"

definition session_rollback :: "state \<Rightarrow> state" where
  "session_rollback s = s\<lparr>pending_products := [], pending_inventories := [], in_txn := False\<rparr>"

definition product_at :: "state \<Rightarrow> nat \<Rightarrow> product \<Rightarrow> product" where
  \<comment> \<open>The object behind a reference, as the session holds it now (a flush has written
      its id into it); the object as it was built, were it not in the session.\<close>
  "product_at s h p0 = (case drop h (pending_products s) of [] \<Rightarrow> p0 | p # ps \<Rightarrow> p)"

section \<open>The handler\<close>

record response =
  status :: nat
  body :: "(string \<times> json) list"

text \<open>How the body of the handler's \<^verbatim>\<open>try\<close> block ends: a \<^verbatim>\<open>return\<close> or a raise.\<close>

datatype outcome = Return response | Raise exn

definition error_response :: "string \<Rightarrow> nat \<Rightarrow> response" where
  \<comment> \<open>\<^verbatim>\<open>jsonify({"error": msg}), code\<close>\<close>
  "error_response msg code = \<lparr>status = code, body = [(''error'', JStr msg)]\<rparr>"

definition required_fields :: "string list" where
  "required_fields = [''name'', ''sku'', ''price'', ''warehouse_id'', ''initial_quantity'']"

fun first_missing :: "string list \<Rightarrow> json \<Rightarrow> exn + string option" where
  \<comment> \<open>Lines 16-18: the first field with \<^verbatim>\<open>field not in data or data[field] is None\<close>.\<close>
  "first_missing [] data = Inr None"
| "first_missing (f # fs) data =
     (case py_contains data f of
        Inl e \<Rightarrow> Inl e
      | Inr False \<Rightarrow> Inr (Some f)
      | Inr True \<Rightarrow>
          (case py_getitem data f of
             Inl e \<Rightarrow> Inl e
           | Inr v \<Rightarrow> if v = JNull then Inr (Some f) else first_missing fs data))"

definition check_price :: "json \<Rightarrow> outcome + decimal" where
  \<comment> \<open>Lines 21-26. Only \<^verbatim>\<open>InvalidOperation\<close> (and \<^verbatim>\<open>ValueError\<close>, which nothing here
      raises) is caught by the inner \<^verbatim>\<open>except\<close>.\<close>
  "check_price data =
     (case py_getitem data ''price'' of
        Inl e \<Rightarrow> Inl (Raise e)
      | Inr v \<Rightarrow>
          (case Decimal_str v of
             Inl e \<Rightarrow>
               if e = InvalidOperation then Inl (Return (error_response ''Invalid price format'' 400))
               else Inl (Raise e)
           | Inr d \<Rightarrow>
               (case decimal_lt_zero d of
                  Inl e \<Rightarrow>
                    if e = InvalidOperation
                    then Inl (Return (error_response ''Invalid price format'' 400))
                    else Inl (Raise e)
                | Inr True \<Rightarrow> Inl (Return (error_response ''Price cannot be negative'' 400))
                | Inr False \<Rightarrow> Inr d)))"

definition check_quantity :: "json \<Rightarrow> outcome + json" where
  \<comment> \<open>Lines 28-30.\<close>
  "check_quantity data =
     (case py_getitem data ''initial_quantity'' of
        Inl e \<Rightarrow> Inl (Raise e)
      | Inr initial_quantity \<Rightarrow>
          if \<not> isinstance_int initial_quantity \<or> int_value initial_quantity < 0
          then Inl (Return (error_response ''Initial quantity must be non-negative integer'' 400))
          else Inr initial_quantity)"

definition check_warehouse :: "env \<Rightarrow> state \<Rightarrow> json \<Rightarrow> outcome + unit" where
  \<comment> \<open>Lines 33-35.\<close>
  "check_warehouse E s data =
     (case py_getitem data ''warehouse_id'' of
        Inl e \<Rightarrow> Inl (Raise e)
      | Inr k \<Rightarrow>
          (case Warehouse_query_get E s k of
             Inl e \<Rightarrow> Inl (Raise e)
           | Inr False \<Rightarrow> Inl (Return (error_response ''Warehouse not found'' 404))
           | Inr True \<Rightarrow> Inr ()))"

definition validate :: "env \<Rightarrow> json \<Rightarrow> state \<Rightarrow> outcome + decimal \<times> json" where
  \<comment> \<open>Lines 10-35: the checks, in the order of the source; none of them writes.\<close>
  "validate E data s =
     (if \<not> truthy data then Inl (Return (error_response ''No JSON data provided'' 400))
      else
        (case first_missing required_fields data of
           Inl e \<Rightarrow> Inl (Raise e)
         | Inr (Some f) \<Rightarrow> Inl (Return (error_response (''Missing required field: '' @ f) 400))
         | Inr None \<Rightarrow>
             (case check_price data of
                Inl out \<Rightarrow> Inl out
              | Inr price0 \<Rightarrow>
                  (case check_quantity data of
                     Inl out \<Rightarrow> Inl out
                   | Inr initial_quantity \<Rightarrow>
                       (case check_warehouse E s data of
                          Inl out \<Rightarrow> Inl out
                        | Inr u \<Rightarrow> Inr (price0, initial_quantity))))))"

definition new_product :: "json \<Rightarrow> decimal \<Rightarrow> exn + product" where
  \<comment> \<open>Lines 41-46; the keyword arguments are evaluated in the order written.\<close>
  "new_product data price0 =
     (case py_getitem data ''name'' of
        Inl e \<Rightarrow> Inl e
      | Inr nv \<Rightarrow>
          (case py_strip nv of
             Inl e \<Rightarrow> Inl e
           | Inr n \<Rightarrow>
               (case py_getitem data ''sku'' of
                  Inl e \<Rightarrow> Inl e
                | Inr sv \<Rightarrow>
                    (case py_strip sv of
                       Inl e \<Rightarrow> Inl e
                     | Inr k \<Rightarrow>
                         (case py_getitem data ''warehouse_id'' of
                            Inl e \<Rightarrow> Inl e
                          | Inr w \<Rightarrow>
                              Inr \<lparr>pid = None, name = n, sku = upper k, price = price0,
                                   warehouse_id = w\<rparr>)))))"

definition created_response :: "product \<Rightarrow> response" where
  \<comment> \<open>Lines 61-65.\<close>
  "created_response p =
     \<lparr>status = 201,
      body = [(''message'', JStr ''Product created successfully''),
              (''product_id'', (case pid p of None \<Rightarrow> JNull | Some n \<Rightarrow> JInt (int n))),
              (''sku'', JStr (sku p))]\<rparr>"

definition transaction :: "env \<Rightarrow> json \<Rightarrow> decimal \<Rightarrow> json \<Rightarrow> state \<Rightarrow> outcome \<times> state" where
  \<comment> \<open>Lines 38-65, with the state as it is when an exception leaves the block.\<close>
  "transaction E data price0 initial_quantity s =
     (case session_begin E s of
        Inl e \<Rightarrow> (Raise e, s)
      | Inr s1 \<Rightarrow>
          (case new_product data price0 of
             Inl e \<Rightarrow> (Raise e, s1)
           | Inr p0 \<Rightarrow>
               (let (h, s2) = session_add_product p0 s1 in
                case session_flush E s2 of
                  Inl e \<Rightarrow> (Raise e, s2)
                | Inr s3 \<Rightarrow>
                    (let p = product_at s3 h p0 in
                     case py_getitem data ''warehouse_id'' of
                       Inl e \<Rightarrow> (Raise e, s3)
                     | Inr w \<Rightarrow>
                         (let i = \<lparr>product_id = pid p, inv_warehouse_id = w,
                                   quantity = initial_quantity\<rparr>;
                              s4 = session_add_inventory i s3
                          in case session_commit E s4 of
                               Inl e \<Rightarrow> (Raise e, s4)
                             | Inr s5 \<Rightarrow> (Return (created_response p), s5))))))"

definition try_body :: "env \<Rightarrow> json \<Rightarrow> state \<Rightarrow> outcome \<times> state" where
  \<comment> \<open>Lines 9-65.\<close>
  "try_body E data s =
     (case validate E data s of
        Inl out \<Rightarrow> (out, s)
      | Inr (price0, initial_quantity) \<Rightarrow> transaction E data price0 initial_quantity s)"

definition create_product :: "env \<Rightarrow> json \<Rightarrow> state \<Rightarrow> response \<times> state" where
  \<comment> \<open>Lines 7-76: the \<^verbatim>\<open>try\<close> block and its two handlers. \<^verbatim>\<open>logging.error\<close> writes
      \<^verbatim>\<open>str(e)\<close> behind a fixed prefix; the log keeps the exception.\<close>
  "create_product E data s =
     (case try_body E data s of
        (Return r, s1) \<Rightarrow> (r, s1)
      | (Raise e, s1) \<Rightarrow>
          (case e of
             IntegrityError m \<Rightarrow>
               (if str_in ''sku'' (lower m) then error_response ''SKU already exists'' 409
                else error_response ''Database constraint violation'' 400,
                session_rollback s1)
           | _ \<Rightarrow>
               (error_response ''Internal server error'' 500,
                (session_rollback s1)\<lparr>error_log := error_log s1 @ [e]\<rparr>)))"

section \<open>Concrete requests\<close>

definition env0 :: env where
  \<comment> \<open>A database that works, and a driver that finds no row under a key that is no
      integer.\<close>
  "env0 = \<lparr>coerce_key = (\<lambda>k. Inr None), select_fault = None, begin_fault = None,
            flush_fault = None, commit_fault = None\<rparr>"

definition state0 :: state where
  \<comment> \<open>Warehouse 1 exists; no product yet; the session is idle.\<close>
  "state0 = \<lparr>products = [], inventories = [], warehouses = [1], pending_products = [],
              pending_inventories = [], in_txn = False, error_log = []\<rparr>"

definition widget :: json where
  "widget = JDict [(''name'', JStr ''Widget''), (''sku'', JStr '' abc-1 ''),
                   (''price'', JStr ''9.99''), (''warehouse_id'', JInt 1),
                   (''initial_quantity'', JInt 10)]"

definition numeric_name :: json where
  \<comment> \<open>The widget, with a number for a name.\<close>
  "numeric_name = JDict [(''name'', JInt 5), (''sku'', JStr '' abc-1 ''),
                         (''price'', JStr ''9.99''), (''warehouse_id'', JInt 1),
                         (''initial_quantity'', JInt 10)]"

definition bool_quantity :: json where
  \<comment> \<open>The widget, with \<^verbatim>\<open>true\<close> for a quantity.\<close>
  "bool_quantity = JDict [(''name'', JStr ''Widget''), (''sku'', JStr '' abc-1 ''),
                          (''price'', JStr ''9.99''), (''warehouse_id'', JInt 1),
                          (''initial_quantity'', JBool True)]"

definition gadget :: json where
  \<comment> \<open>Another product under the widget's sku, written in another case and spacing.\<close>
  "gadget = JDict [(''name'', JStr ''Gadget''), (''sku'', JStr ''Abc-1  ''),
                   (''price'', JInt 3), (''warehouse_id'', JInt 1),
                   (''initial_quantity'', JInt 0)]"

definition no_sku_no_warehouse :: json where
  "no_sku_no_warehouse = JDict [(''name'', JStr ''Widget''), (''price'', JStr ''9.99''),
                                (''initial_quantity'', JInt 10)]"

definition elsewhere :: json where
  \<comment> \<open>The widget, for a warehouse that does not exist.\<close>
  "elsewhere = JDict [(''name'', JStr ''Widget''), (''sku'', JStr '' abc-1 ''),
                      (''price'', JStr ''9.99''), (''warehouse_id'', JInt 7),
                      (''initial_quantity'', JInt 10)]"

definition overdrawn :: json where
  \<comment> \<open>The widget, at a negative price.\<close>
  "overdrawn = JDict [(''name'', JStr ''Widget''), (''sku'', JStr '' abc-1 ''),
                      (''price'', JStr ''-0.01''), (''warehouse_id'', JInt 1),
                      (''initial_quantity'', JInt 10)]"

definition priceless :: json where
  \<comment> \<open>The widget, at a price that is no number.\<close>
  "priceless = JDict [(''name'', JStr ''Widget''), (''sku'', JStr '' abc-1 ''),
                      (''price'', JStr ''cheap''), (''warehouse_id'', JInt 1),
                      (''initial_quantity'', JInt 10)]"

definition env_commit_fails :: env where
  \<comment> \<open>A database whose commit violates a constraint that is not the sku's.\<close>
  "env_commit_fails = \<lparr>coerce_key = (\<lambda>k. Inr None), select_fault = None, begin_fault = None,
     flush_fault = None,
     commit_fault = Some (IntegrityError ''FOREIGN KEY constraint failed'')\<rparr>"

definition env_flush_fails :: env where
  \<comment> \<open>A database that loses its connection at the flush.\<close>
  "env_flush_fails = \<lparr>coerce_key = (\<lambda>k. Inr None), select_fault = None, begin_fault = None,
     flush_fault = Some (DBError ''server closed the connection unexpectedly''),
     commit_fault = None\<rparr>"

section \<open>Properties\<close>

definition idle :: "state \<Rightarrow> bool" where
  \<comment> \<open>The session as a request finds it: no transaction open, nothing pending.\<close>
  "idle s = (\<not> in_txn s \<and> pending_products s = [] \<and> pending_inventories s = [])"

definition paired :: "state \<Rightarrow> bool" where
  \<comment> \<open>Every Product row has an Inventory row of its id, and every Inventory row a
      Product row.\<close>
  "paired s = (pid ` set (products s) = product_id ` set (inventories s))"

fun is_integrity :: "exn \<Rightarrow> bool" where
  "is_integrity (IntegrityError m) = True"
| "is_integrity e = False"

fun is_str :: "json \<Rightarrow> bool" where
  "is_str (JStr t) = True"
| "is_str v = False"

definition missing :: "(string \<times> json) list \<Rightarrow> string \<Rightarrow> bool" where
  \<comment> \<open>The key is absent from the mapping, or null in it.\<close>
  "missing kvs f = (map_of kvs f = None \<or> map_of kvs f = Some JNull)"

subsection \<open>The session and the transaction\<close>

lemma rollback_idle: "idle s \<Longrightarrow> session_rollback s = s"
  by (simp add: idle_def session_rollback_def)

lemma idle_rollback: "idle (session_rollback s)"
  by (simp add: idle_def session_rollback_def)

lemma new_product_Inr:
  "new_product d pr = Inr p0 \<Longrightarrow>
     \<exists>n k w. py_getitem d ''name'' = Inr (JStr n) \<and> py_getitem d ''sku'' = Inr (JStr k) \<and>
       py_getitem d ''warehouse_id'' = Inr w \<and>
       p0 = \<lparr>pid = None, name = strip n, sku = upper (strip k), price = pr, warehouse_id = w\<rparr>"
  by (auto simp: new_product_def py_strip_def split: sum.splits json.splits)

text \<open>
  From an idle session the transaction ends in one of two ways: an exception, with
  nothing but the session touched, or the 201 response, with the two rows appended.
\<close>

lemma transaction_result:
  assumes "idle s" and "transaction E d pr q s = (out, s')"
  shows "(\<exists>e. out = Raise e \<and> session_rollback s' = s) \<or>
         (\<exists>n k w. py_getitem d ''name'' = Inr (JStr n) \<and> py_getitem d ''sku'' = Inr (JStr k) \<and>
            py_getitem d ''warehouse_id'' = Inr w \<and>
            upper (strip k) \<notin> sku ` set (products s) \<and>
            begin_fault E = None \<and> flush_fault E = None \<and> commit_fault E = None \<and>
            out = Return (created_response
                    \<lparr>pid = Some (fresh_id (products s)), name = strip n, sku = upper (strip k),
                     price = pr, warehouse_id = w\<rparr>) \<and>
            s' = s\<lparr>products := products s @
                      [\<lparr>pid = Some (fresh_id (products s)), name = strip n,
                        sku = upper (strip k), price = pr, warehouse_id = w\<rparr>],
                   inventories := inventories s @
                      [\<lparr>product_id = Some (fresh_id (products s)), inv_warehouse_id = w,
                        quantity = q\<rparr>]\<rparr>)"
proof (cases "session_begin E s")
  case (Inl e)
  with assms show ?thesis by (auto simp: transaction_def rollback_idle)
next
  case (Inr s1)
  then have s1: "s1 = s\<lparr>in_txn := True\<rparr>" and bf: "begin_fault E = None"
    by (auto simp: session_begin_def split: option.splits)
  show ?thesis
  proof (cases "new_product d pr")
    case (Inl e)
    with assms Inr s1 show ?thesis
      by (auto simp: transaction_def session_rollback_def idle_def)
  next
    case np: (Inr p0)
    from new_product_Inr[OF np] obtain n k w where
      gn: "py_getitem d ''name'' = Inr (JStr n)" and gk: "py_getitem d ''sku'' = Inr (JStr k)" and
      gw: "py_getitem d ''warehouse_id'' = Inr w" and
      p0: "p0 = \<lparr>pid = None, name = strip n, sku = upper (strip k), price = pr, warehouse_id = w\<rparr>"
      by blast
    from assms Inr s1 np p0 gn gk gw bf show ?thesis
      by (cases s) (auto simp: transaction_def session_add_product_def session_flush_def
          session_commit_def session_add_inventory_def product_at_def session_rollback_def
          idle_def Let_def split: sum.splits option.splits if_splits prod.splits)
  qed
qed

subsection \<open>What the checks can return and raise\<close>

lemma Decimal_raises: "Decimal v = Inl e \<Longrightarrow> e = InvalidOperation"
  by (auto simp: Decimal_def parse_number_def Let_def split: option.splits prod.splits list.splits if_splits)

lemma Decimal_str_raises: "Decimal_str v = Inl e \<Longrightarrow> e = InvalidOperation"
  by (auto simp: Decimal_str_def dest: Decimal_raises split: json.splits)

lemma decimal_lt_zero_raises: "decimal_lt_zero x = Inl e \<Longrightarrow> e = InvalidOperation"
  by (auto simp: decimal_lt_zero_def split: decimal.splits)

lemma validate_Return:
  "validate E d s = Inl (Return r) \<Longrightarrow>
     r = error_response ''No JSON data provided'' 400 \<or>
     (\<exists>f. r = error_response (''Missing required field: '' @ f) 400) \<or>
     r = error_response ''Invalid price format'' 400 \<or>
     r = error_response ''Price cannot be negative'' 400 \<or>
     r = error_response ''Initial quantity must be non-negative integer'' 400 \<or>
     r = error_response ''Warehouse not found'' 404"
  by (auto simp: validate_def check_price_def check_quantity_def check_warehouse_def
      split: if_splits sum.splits option.splits bool.splits)

lemma py_getitem_raises: "py_getitem d f = Inl e \<Longrightarrow> \<not> is_integrity e"
  by (auto simp: py_getitem_def split: json.splits option.splits)

lemma first_missing_raises: "first_missing fs d = Inl e \<Longrightarrow> \<not> is_integrity e"
  by (induction fs) (auto simp: py_contains_def dest: py_getitem_raises split: sum.splits bool.splits if_splits json.splits)

lemma validate_Raise: "validate E d s = Inl (Raise e) \<Longrightarrow> \<not> is_integrity e"
  by (auto simp: validate_def check_price_def check_quantity_def check_warehouse_def Warehouse_query_get_def
      dest: py_getitem_raises first_missing_raises Decimal_str_raises decimal_lt_zero_raises
      split: if_splits sum.splits option.splits bool.splits json.splits)

subsection \<open>The four ways a request ends\<close>

text \<open>
  A request that finds the session idle ends in one of four ways: a validation response,
  with the state as it was; an integrity violation, answered 409 or 400 after the
  rollback; any other exception, logged and answered 500 after the rollback; or the two
  rows committed and the 201 response.
\<close>

lemma create_product_cases:
  assumes "idle s"
  shows "(\<exists>r. validate E d s = Inl (Return r) \<and> create_product E d s = (r, s)) \<or>
         (\<exists>m. fst (try_body E d s) = Raise (IntegrityError m) \<and>
            create_product E d s =
              (if str_in ''sku'' (lower m) then error_response ''SKU already exists'' 409
               else error_response ''Database constraint violation'' 400, s)) \<or>
         (\<exists>e. fst (try_body E d s) = Raise e \<and> \<not> is_integrity e \<and>
            create_product E d s =
              (error_response ''Internal server error'' 500, s\<lparr>error_log := error_log s @ [e]\<rparr>)) \<or>
         (\<exists>pr q n k w. validate E d s = Inr (pr, q) \<and>
            py_getitem d ''name'' = Inr (JStr n) \<and> py_getitem d ''sku'' = Inr (JStr k) \<and>
            py_getitem d ''warehouse_id'' = Inr w \<and>
            upper (strip k) \<notin> sku ` set (products s) \<and>
            begin_fault E = None \<and> flush_fault E = None \<and> commit_fault E = None \<and>
            create_product E d s =
              (created_response
                 \<lparr>pid = Some (fresh_id (products s)), name = strip n, sku = upper (strip k),
                  price = pr, warehouse_id = w\<rparr>,
               s\<lparr>products := products s @
                      [\<lparr>pid = Some (fresh_id (products s)), name = strip n,
                        sku = upper (strip k), price = pr, warehouse_id = w\<rparr>],
                   inventories := inventories s @
                      [\<lparr>product_id = Some (fresh_id (products s)), inv_warehouse_id = w,
                        quantity = q\<rparr>]\<rparr>))"
proof (cases "validate E d s")
  case (Inl out)
  show ?thesis
  proof (cases out)
    case (Return r)
    with Inl show ?thesis by (simp add: create_product_def try_body_def)
  next
    case (Raise e)
    with Inl have tb: "try_body E d s = (Raise e, s)" by (simp add: try_body_def)
    from Inl Raise have "\<not> is_integrity e" by (auto dest: validate_Raise)
    with tb assms show ?thesis
      by (cases e) (simp_all add: create_product_def rollback_idle)
  qed
next
  case (Inr a)
  obtain pr q where a: "a = (pr, q)" by (cases a)
  obtain out s' where t: "transaction E d pr q s = (out, s')" by (cases "transaction E d pr q s")
  with Inr a have tb: "try_body E d s = (out, s')" by (simp add: try_body_def)
  from transaction_result[OF assms t] show ?thesis
  proof
    assume "\<exists>e. out = Raise e \<and> session_rollback s' = s"
    then obtain e where e: "out = Raise e" and rb: "session_rollback s' = s" by blast
    have "error_log s' = error_log (session_rollback s')" by (simp add: session_rollback_def)
    with rb have el: "error_log s' = error_log s" by simp
    from tb e rb el show ?thesis
      by (cases e) (simp_all add: create_product_def)
  next
    assume "\<exists>n k w. py_getitem d ''name'' = Inr (JStr n) \<and> py_getitem d ''sku'' = Inr (JStr k) \<and>
            py_getitem d ''warehouse_id'' = Inr w \<and>
            upper (strip k) \<notin> sku ` set (products s) \<and>
            begin_fault E = None \<and> flush_fault E = None \<and> commit_fault E = None \<and>
            out = Return (created_response
                    \<lparr>pid = Some (fresh_id (products s)), name = strip n, sku = upper (strip k),
                     price = pr, warehouse_id = w\<rparr>) \<and>
            s' = s\<lparr>products := products s @
                      [\<lparr>pid = Some (fresh_id (products s)), name = strip n,
                        sku = upper (strip k), price = pr, warehouse_id = w\<rparr>],
                   inventories := inventories s @
                      [\<lparr>product_id = Some (fresh_id (products s)), inv_warehouse_id = w,
                        quantity = q\<rparr>]\<rparr>"
    with tb Inr a show ?thesis
      by (auto simp: create_product_def)
  qed
qed

lemma fresh_id_new: "Some (fresh_id ps) \<notin> pid ` set ps"
proof -
  have le: "\<And>xs (x::nat). x \<in> set xs \<Longrightarrow> x \<le> foldr max xs 0"
  proof -
    fix xs and x :: nat show "x \<in> set xs \<Longrightarrow> x \<le> foldr max xs 0"
      by (induction xs) auto
  qed
  show ?thesis
  proof
    assume "Some (fresh_id ps) \<in> pid ` set ps"
    then obtain p where p: "p \<in> set ps" "pid p = Some (fresh_id ps)" by force
    then have "fresh_id ps \<in> set (List.map_filter pid ps)"
      by (force simp: List.map_filter_def)
    from le[OF this] show False by (simp add: fresh_id_def)
  qed
qed

lemma first_missing_dict:
  "first_missing fs (JDict kvs) =
     (case find (missing kvs) fs of None \<Rightarrow> Inr None | Some f \<Rightarrow> Inr (Some f))"
  by (induction fs) (auto simp: py_contains_def py_getitem_def missing_def split: option.splits)

lemma validate_Inr:
  assumes "validate E d s = Inr (pr, q)"
  shows "truthy d \<and> first_missing required_fields d = Inr None \<and>
         (\<exists>v. py_getitem d ''price'' = Inr v \<and> Decimal_str v = Inr pr \<and>
              decimal_lt_zero pr = Inr False) \<and>
         py_getitem d ''initial_quantity'' = Inr q \<and> isinstance_int q \<and> 0 \<le> int_value q \<and>
         (\<exists>w. py_getitem d ''warehouse_id'' = Inr w \<and> Warehouse_query_get E s w = Inr True)"
  using assms
  by (auto simp: validate_def check_price_def check_quantity_def check_warehouse_def
      split: if_splits sum.splits option.splits bool.splits)

lemma try_body_Raise:
  assumes "idle s" and "try_body E d s = (Raise e, s1)"
  shows "session_rollback s1 = s"
proof (cases "validate E d s")
  case (Inl out)
  with assms show ?thesis by (simp add: try_body_def rollback_idle)
next
  case (Inr a)
  obtain pr q where a: "a = (pr, q)" by (cases a)
  with Inr assms(2) have "transaction E d pr q s = (Raise e, s1)" by (simp add: try_body_def)
  from transaction_result[OF assms(1) this] show ?thesis by auto
qed

lemma transaction_Return:
  "transaction E d pr q s = (Return r, s') \<Longrightarrow> \<exists>p. r = created_response p"
  by (auto simp: transaction_def Let_def split: sum.splits prod.splits)

lemma transaction_warehouses: "warehouses (snd (transaction E d pr q s)) = warehouses s"
  by (auto simp: transaction_def Let_def session_begin_def session_add_product_def
      session_flush_def session_add_inventory_def session_commit_def
      split: sum.splits prod.splits option.splits)

lemma create_product_warehouses: "warehouses (snd (create_product E d s)) = warehouses s"
proof (cases "validate E d s")
  case (Inl out)
  then show ?thesis
    by (cases out) (auto simp: create_product_def try_body_def session_rollback_def split: exn.splits)
next
  case (Inr a)
  obtain pr q where a: "a = (pr, q)" by (cases a)
  from transaction_warehouses[of E d pr q s] Inr a show ?thesis
    by (cases "transaction E d pr q s")
      (auto simp: create_product_def try_body_def session_rollback_def split: outcome.splits exn.splits)
qed

lemma sku_violation_names_sku: "str_in ''sku'' (lower sku_violation)"
  by code_simp

lemma duplicate_sku_conflict:
  assumes "idle s" and "validate E d s = Inr (pr, q)"
    and "py_getitem d ''name'' = Inr (JStr n)" and "py_getitem d ''sku'' = Inr (JStr k)"
    and "begin_fault E = None" and "flush_fault E = None"
    and "upper (strip k) \<in> sku ` set (products s)"
  shows "create_product E d s = (error_response ''SKU already exists'' 409, s)"
proof -
  from validate_Inr[OF assms(2)] obtain w where w: "py_getitem d ''warehouse_id'' = Inr w"
    by blast
  from assms w have "transaction E d pr q s =
      (Raise (IntegrityError sku_violation),
       s\<lparr>in_txn := True,
          pending_products := [\<lparr>pid = None, name = strip n, sku = upper (strip k), price = pr,
                                warehouse_id = w\<rparr>]\<rparr>)"
    by (simp add: transaction_def session_begin_def new_product_def py_strip_def
        session_add_product_def session_flush_def idle_def)
  with assms(1,2) sku_violation_names_sku show ?thesis
    by (simp add: create_product_def try_body_def session_rollback_def idle_def)
qed

lemma created_state:
  assumes "idle s" and "status (fst (create_product E d s)) = 201"
    and "py_getitem d ''sku'' = Inr (JStr k)"
  shows "idle (snd (create_product E d s)) \<and>
         upper (strip k) \<in> sku ` set (products (snd (create_product E d s)))"
  using create_product_cases[OF assms(1), of E d]
proof (elim disjE exE conjE)
  fix r0
  assume v: "validate E d s = Inl (Return r0)" and c: "create_product E d s = (r0, s)"
  from validate_Return[OF v] have "status r0 \<noteq> 201" by (auto simp: error_response_def)
  with c assms show ?thesis by simp
next
  fix m
  assume "create_product E d s =
       (if str_in ''sku'' (lower m) then error_response ''SKU already exists'' 409
        else error_response ''Database constraint violation'' 400, s)"
  with assms show ?thesis by (auto simp: error_response_def split: if_splits)
next
  fix e
  assume "create_product E d s =
       (error_response ''Internal server error'' 500, s\<lparr>error_log := error_log s @ [e]\<rparr>)"
  with assms show ?thesis by (simp add: error_response_def)
next
  fix pr q n k' w
  assume "py_getitem d ''sku'' = Inr (JStr k')"
    and "create_product E d s =
       (created_response
          \<lparr>pid = Some (fresh_id (products s)), name = strip n, sku = upper (strip k'),
           price = pr, warehouse_id = w\<rparr>,
        s\<lparr>products := products s @
               [\<lparr>pid = Some (fresh_id (products s)), name = strip n,
                 sku = upper (strip k'), price = pr, warehouse_id = w\<rparr>],
            inventories := inventories s @
               [\<lparr>product_id = Some (fresh_id (products s)), inv_warehouse_id = w,
                 quantity = q\<rparr>]\<rparr>)"
  with assms show ?thesis by (simp add: idle_def)
qed

lemma validate_dict:
  assumes "\<forall>f \<in> set required_fields. \<not> missing kvs f"
    and "map_of kvs ''price'' = Some v" and "Decimal_str v = Inr pr"
    and "decimal_lt_zero pr = Inr False"
    and "map_of kvs ''initial_quantity'' = Some q" and "isinstance_int q" and "0 \<le> int_value q"
    and "map_of kvs ''warehouse_id'' = Some w" and "Warehouse_query_get E s w = Inr True"
  shows "validate E (JDict kvs) s = Inr (pr, q)"
proof -
  from assms(2) have ne: "kvs \<noteq> []" by auto
  from assms(1) have "find (missing kvs) required_fields = None"
    by (simp add: find_None_iff)
  then have fm: "first_missing required_fields (JDict kvs) = Inr None"
    by (simp add: first_missing_dict)
  from ne fm assms(2-) show ?thesis
    by (simp add: validate_def check_price_def check_quantity_def check_warehouse_def
        py_getitem_def)
qed

lemma new_product_not_str:
  assumes "py_getitem d ''name'' = Inr nv" and "py_getitem d ''sku'' = Inr sv"
    and "\<not> is_str nv \<or> \<not> is_str sv"
  shows "new_product d pr = Inl AttributeError"
  using assms
  by (cases nv; cases sv) (simp_all add: new_product_def py_strip_def)

lemma created_idle:
  assumes "idle s"
  shows "idle (snd (create_product E d s))"
  using create_product_cases[OF assms, of E d] assms
  by (elim disjE exE conjE) (simp_all add: idle_def)

subsection \<open>Claims\<close>

text \<open>
  C1 (atomicity). For every request that finds the session idle: a response other than 201
  leaves the Product, Inventory and Warehouse tables as they were; a 201 response has
  appended exactly one Product row and one Inventory row that carries the product's newly
  assigned id; so Product rows and Inventory rows stay paired, and the session is idle
  again when the handler returns.
\<close>

theorem create_product_atomic:
  assumes "idle s" and "create_product E d s = (r, s')"
  shows "(status r \<noteq> 201 \<longrightarrow>
            products s' = products s \<and> inventories s' = inventories s \<and>
            warehouses s' = warehouses s) \<and>
         (status r = 201 \<longrightarrow>
            (\<exists>p i. products s' = products s @ [p] \<and> inventories s' = inventories s @ [i] \<and>
               product_id i = pid p \<and> pid p \<notin> pid ` set (products s))) \<and>
         (paired s \<longrightarrow> paired s') \<and> idle s'"
  using create_product_cases[OF assms(1), of E d]
proof (elim disjE exE conjE)
  fix r0
  assume v: "validate E d s = Inl (Return r0)" and c: "create_product E d s = (r0, s)"
  from validate_Return[OF v] have "status r0 \<noteq> 201"
    by (auto simp: error_response_def)
  with c assms show ?thesis by simp
next
  fix m
  assume "create_product E d s =
       (if str_in ''sku'' (lower m) then error_response ''SKU already exists'' 409
        else error_response ''Database constraint violation'' 400, s)"
  with assms show ?thesis by (auto simp: error_response_def split: if_splits)
next
  fix e
  assume "create_product E d s =
       (error_response ''Internal server error'' 500, s\<lparr>error_log := error_log s @ [e]\<rparr>)"
  with assms have "r = error_response ''Internal server error'' 500"
    and "s' = s\<lparr>error_log := error_log s @ [e]\<rparr>" by simp_all
  with assms(1) show ?thesis by (simp add: error_response_def paired_def idle_def)
next
  fix pr q n k w
  assume "create_product E d s =
       (created_response
          \<lparr>pid = Some (fresh_id (products s)), name = strip n, sku = upper (strip k),
           price = pr, warehouse_id = w\<rparr>,
        s\<lparr>products := products s @
               [\<lparr>pid = Some (fresh_id (products s)), name = strip n,
                 sku = upper (strip k), price = pr, warehouse_id = w\<rparr>],
            inventories := inventories s @
               [\<lparr>product_id = Some (fresh_id (products s)), inv_warehouse_id = w,
                 quantity = q\<rparr>]\<rparr>)"
  with assms have "r = created_response
          \<lparr>pid = Some (fresh_id (products s)), name = strip n, sku = upper (strip k),
           price = pr, warehouse_id = w\<rparr>"
    and "s' = s\<lparr>products := products s @
               [\<lparr>pid = Some (fresh_id (products s)), name = strip n,
                 sku = upper (strip k), price = pr, warehouse_id = w\<rparr>],
            inventories := inventories s @
               [\<lparr>product_id = Some (fresh_id (products s)), inv_warehouse_id = w,
                 quantity = q\<rparr>]\<rparr>" by simp_all
  with assms(1) fresh_id_new[of "products s"] show ?thesis
    by (simp add: created_response_def paired_def idle_def)
qed

theorem create_product_atomic_witness:
  "status (fst (create_product env0 widget state0)) = 201 \<and>
   products (snd (create_product env0 widget state0)) =
     [\<lparr>pid = Some 1, name = ''Widget'', sku = ''ABC-1'', price = Finite False 999 (- 2),
       warehouse_id = JInt 1\<rparr>] \<and>
   inventories (snd (create_product env0 widget state0)) =
     [\<lparr>product_id = Some 1, inv_warehouse_id = JInt 1, quantity = JInt 10\<rparr>] \<and>
   paired (snd (create_product env0 widget state0)) \<and>
   status (fst (create_product env_flush_fails widget state0)) = 500 \<and>
   products (snd (create_product env_flush_fails widget state0)) = [] \<and>
   inventories (snd (create_product env_flush_fails widget state0)) = [] \<and>
   idle (snd (create_product env_flush_fails widget state0))"
proof -
  have i: "idle state0" by code_simp
  have p: "paired state0" by code_simp
  have a: "create_product env0 widget state0 =
     (fst (create_product env0 widget state0), snd (create_product env0 widget state0))" by simp
  have b: "create_product env_flush_fails widget state0 =
     (fst (create_product env_flush_fails widget state0),
      snd (create_product env_flush_fails widget state0))" by simp
  have s1: "status (fst (create_product env0 widget state0)) = 201" by code_simp
  have s2: "status (fst (create_product env_flush_fails widget state0)) = 500" by code_simp
  have s0: "products state0 = []" "inventories state0 = []" by code_simp+
  have ps: "products (snd (create_product env0 widget state0)) =
     [\<lparr>pid = Some 1, name = ''Widget'', sku = ''ABC-1'', price = Finite False 999 (- 2),
       warehouse_id = JInt 1\<rparr>]" by code_simp
  have ivs: "inventories (snd (create_product env0 widget state0)) =
     [\<lparr>product_id = Some 1, inv_warehouse_id = JInt 1, quantity = JInt 10\<rparr>]" by code_simp
  from create_product_atomic[OF i a] create_product_atomic[OF i b] p s1 s2 s0 ps ivs
  show ?thesis by simp
qed

text \<open>
  C3 (uniqueness violations). For every request that finds the session idle: when the
  \<^verbatim>\<open>try\<close> block raises an \<^verbatim>\<open>IntegrityError\<close> with message \<open>m\<close>, validation had
  passed (the error comes from the transaction), the handler answers 409 "SKU already
  exists" if \<open>m\<close>, in lower case, contains "sku" and 400 "Database constraint violation"
  otherwise, and the state is as it was before the request (rolled back). And when a
  request was answered 201, a second request that passes validation, has a string name and
  a sku equal to the first one's after trimming and upper-casing, and meets no failure of
  the database at begin and flush, is answered 409 "SKU already exists" and changes
  nothing.
\<close>

theorem integrity_error_mapping:
  assumes "idle s"
  shows "(fst (try_body E d s) = Raise (IntegrityError m) \<longrightarrow>
            (\<exists>pr q. validate E d s = Inr (pr, q)) \<and>
            create_product E d s =
              (if str_in ''sku'' (lower m) then error_response ''SKU already exists'' 409
               else error_response ''Database constraint violation'' 400, s)) \<and>
         (status (fst (create_product E d s)) = 201 \<and>
          py_getitem d ''sku'' = Inr (JStr k) \<and>
          validate E' d' (snd (create_product E d s)) = Inr (pr', q') \<and>
          py_getitem d' ''name'' = Inr (JStr n') \<and> py_getitem d' ''sku'' = Inr (JStr k') \<and>
          upper (strip k') = upper (strip k) \<and>
          begin_fault E' = None \<and> flush_fault E' = None \<longrightarrow>
            create_product E' d' (snd (create_product E d s)) =
              (error_response ''SKU already exists'' 409, snd (create_product E d s)))"
proof (intro conjI impI)
  assume r: "fst (try_body E d s) = Raise (IntegrityError m)"
  obtain s1 where tb: "try_body E d s = (Raise (IntegrityError m), s1)"
    using r by (cases "try_body E d s") simp
  from try_body_Raise[OF assms tb] tb
  show "create_product E d s =
      (if str_in ''sku'' (lower m) then error_response ''SKU already exists'' 409
       else error_response ''Database constraint violation'' 400, s)"
    by (simp add: create_product_def)
  show "\<exists>pr q. validate E d s = Inr (pr, q)"
  proof (cases "validate E d s")
    case (Inl out)
    with tb have "out = Raise (IntegrityError m)" by (simp add: try_body_def)
    with Inl validate_Raise[of E d s "IntegrityError m"] show ?thesis by simp
  next
    case (Inr a)
    then show ?thesis by (cases a) simp
  qed
next
  assume h: "status (fst (create_product E d s)) = 201 \<and>
          py_getitem d ''sku'' = Inr (JStr k) \<and>
          validate E' d' (snd (create_product E d s)) = Inr (pr', q') \<and>
          py_getitem d' ''name'' = Inr (JStr n') \<and> py_getitem d' ''sku'' = Inr (JStr k') \<and>
          upper (strip k') = upper (strip k) \<and>
          begin_fault E' = None \<and> flush_fault E' = None"
  then have st: "status (fst (create_product E d s)) = 201"
    and gk: "py_getitem d ''sku'' = Inr (JStr k)" by simp_all
  from created_state[OF assms st gk] h
  show "create_product E' d' (snd (create_product E d s)) =
      (error_response ''SKU already exists'' 409, snd (create_product E d s))"
    by (intro duplicate_sku_conflict[where pr = pr' and q = q' and n = n' and k = k']) simp_all
qed

theorem integrity_error_mapping_witness:
  "create_product env_commit_fails widget state0 =
     (error_response ''Database constraint violation'' 400, state0) \<and>
   status (fst (create_product env0 widget state0)) = 201 \<and>
   fst (create_product env0 gadget (snd (create_product env0 widget state0))) =
     error_response ''SKU already exists'' 409 \<and>
   length (products (snd (create_product env0 gadget (snd (create_product env0 widget state0))))) = 1"
proof -
  have i: "idle state0" by code_simp
  have a: "fst (try_body env_commit_fails widget state0) =
      Raise (IntegrityError ''FOREIGN KEY constraint failed'')" by code_simp
  have b: "\<not> str_in ''sku'' (lower ''FOREIGN KEY constraint failed'')" by code_simp
  have c: "status (fst (create_product env0 widget state0)) = 201" by code_simp
  have d: "py_getitem widget ''sku'' = Inr (JStr '' abc-1 '')" by code_simp
  have e: "validate env0 gadget (snd (create_product env0 widget state0)) =
      Inr (Finite False 3 0, JInt 0)" by code_simp
  have f: "py_getitem gadget ''name'' = Inr (JStr ''Gadget'')"
    "py_getitem gadget ''sku'' = Inr (JStr ''Abc-1  '')" by code_simp+
  have g: "upper (strip ''Abc-1  '') = upper (strip '' abc-1 '')" by code_simp
  have h: "begin_fault env0 = None" "flush_fault env0 = None" by code_simp+
  have l: "length (products (snd (create_product env0 widget state0))) = 1" by code_simp
  from integrity_error_mapping[OF i, of env_commit_fails widget
      "''FOREIGN KEY constraint failed''"] a b
  have 1: "create_product env_commit_fails widget state0 =
     (error_response ''Database constraint violation'' 400, state0)" by simp
  from integrity_error_mapping[OF i, of env0 widget "[]" "'' abc-1 ''" env0 gadget
      "Finite False 3 0" "JInt 0" "''Gadget''" "''Abc-1  ''"] c d e f g h
  have 2: "create_product env0 gadget (snd (create_product env0 widget state0)) =
      (error_response ''SKU already exists'' 409, snd (create_product env0 widget state0))"
    by simp
  from 1 2 c l show ?thesis by simp
qed

text \<open>
  C2 (success), as amended. For every request that finds the session idle and whose
  payload is a mapping with the five required fields present and not null, a price that
  \<^verbatim>\<open>Decimal\<close> reads and that is not below zero, an \<^verbatim>\<open>int\<close> quantity that is not below
  zero, a warehouse the lookup finds, and moreover a string name and a string sku whose
  normal form (trimmed, upper-cased) no stored product has, against a database that
  fails at no call: the handler answers 201 with the message, the newly assigned
  product id (one no stored product has) and the normalized sku, and appends exactly the
  Product row (trimmed name, normalized sku, the parsed price, the warehouse id) and the
  Inventory row (the product's id, the same warehouse id, the validated quantity).
\<close>

theorem create_product_success:
  assumes "idle s"
    and "\<forall>f \<in> set required_fields. \<not> missing kvs f"
    and "map_of kvs ''price'' = Some v" and "Decimal_str v = Inr pr"
    and "decimal_lt_zero pr = Inr False"
    and "map_of kvs ''initial_quantity'' = Some q" and "isinstance_int q" and "0 \<le> int_value q"
    and "map_of kvs ''warehouse_id'' = Some w" and "Warehouse_query_get E s w = Inr True"
    and "map_of kvs ''name'' = Some (JStr n)" and "map_of kvs ''sku'' = Some (JStr k)"
    and "upper (strip k) \<notin> sku ` set (products s)"
    and "begin_fault E = None" and "flush_fault E = None" and "commit_fault E = None"
  shows "create_product E (JDict kvs) s =
           (\<lparr>status = 201,
             body = [(''message'', JStr ''Product created successfully''),
                     (''product_id'', JInt (int (fresh_id (products s)))),
                     (''sku'', JStr (upper (strip k)))]\<rparr>,
            s\<lparr>products := products s @
                  [\<lparr>pid = Some (fresh_id (products s)), name = strip n,
                    sku = upper (strip k), price = pr, warehouse_id = w\<rparr>],
               inventories := inventories s @
                  [\<lparr>product_id = Some (fresh_id (products s)), inv_warehouse_id = w,
                    quantity = q\<rparr>]\<rparr>) \<and>
         Some (fresh_id (products s)) \<notin> pid ` set (products s)"
proof -
  have v: "validate E (JDict kvs) s = Inr (pr, q)"
    using assms(2-10) by (rule validate_dict)
  have np: "new_product (JDict kvs) pr =
      Inr \<lparr>pid = None, name = strip n, sku = upper (strip k), price = pr, warehouse_id = w\<rparr>"
    using assms(9,11,12) by (simp add: new_product_def py_getitem_def py_strip_def)
  have t: "transaction E (JDict kvs) pr q s =
      (Return (created_response
         \<lparr>pid = Some (fresh_id (products s)), name = strip n, sku = upper (strip k),
          price = pr, warehouse_id = w\<rparr>),
       s\<lparr>products := products s @
             [\<lparr>pid = Some (fresh_id (products s)), name = strip n,
               sku = upper (strip k), price = pr, warehouse_id = w\<rparr>],
          inventories := inventories s @
             [\<lparr>product_id = Some (fresh_id (products s)), inv_warehouse_id = w,
               quantity = q\<rparr>]\<rparr>)"
    using assms(1,9,13-16) np
    by (cases s) (simp add: transaction_def session_begin_def session_add_product_def
        session_flush_def session_commit_def session_add_inventory_def product_at_def
        py_getitem_def idle_def Let_def)
  from v t fresh_id_new[of "products s"] show ?thesis
    by (simp add: create_product_def try_body_def created_response_def)
qed

theorem create_product_success_witness:
  "create_product env0 widget state0 =
     (\<lparr>status = 201,
       body = [(''message'', JStr ''Product created successfully''),
               (''product_id'', JInt 1), (''sku'', JStr ''ABC-1'')]\<rparr>,
      state0\<lparr>products :=
               [\<lparr>pid = Some 1, name = ''Widget'', sku = ''ABC-1'',
                 price = Finite False 999 (- 2), warehouse_id = JInt 1\<rparr>],
             inventories :=
               [\<lparr>product_id = Some 1, inv_warehouse_id = JInt 1, quantity = JInt 10\<rparr>]\<rparr>)"
proof -
  let ?kvs = "[(''name'', JStr ''Widget''), (''sku'', JStr '' abc-1 ''),
               (''price'', JStr ''9.99''), (''warehouse_id'', JInt 1),
               (''initial_quantity'', JInt 10)]"
  have i: "idle state0" by code_simp
  have r: "\<forall>f \<in> set required_fields. \<not> missing ?kvs f" by code_simp
  have p: "map_of ?kvs ''price'' = Some (JStr ''9.99'')" by code_simp
  have d: "Decimal_str (JStr ''9.99'') = Inr (Finite False 999 (- 2))" by code_simp
  have z: "decimal_lt_zero (Finite False 999 (- 2)) = Inr False" by code_simp
  have q: "map_of ?kvs ''initial_quantity'' = Some (JInt 10)" by code_simp
  have q1: "isinstance_int (JInt 10)" "0 \<le> int_value (JInt 10)" by code_simp+
  have w: "map_of ?kvs ''warehouse_id'' = Some (JInt 1)" by code_simp
  have w1: "Warehouse_query_get env0 state0 (JInt 1) = Inr True" by code_simp
  have n: "map_of ?kvs ''name'' = Some (JStr ''Widget'')" by code_simp
  have k: "map_of ?kvs ''sku'' = Some (JStr '' abc-1 '')" by code_simp
  have u: "upper (strip '' abc-1 '') \<notin> sku ` set (products state0)" by code_simp
  have f: "begin_fault env0 = None" "flush_fault env0 = None" "commit_fault env0 = None"
    by code_simp+
  have e: "fresh_id (products state0) = 1" "products state0 = []" "inventories state0 = []"
    "strip ''Widget'' = ''Widget''" "upper (strip '' abc-1 '') = ''ABC-1''"
    by code_simp+
  from create_product_success[OF i r p d z q q1 w w1 n k u f] e
  show ?thesis by (simp add: widget_def)
qed

theorem valid_payload_not_created:
  "validate env0 numeric_name state0 = Inr (Finite False 999 (- 2), JInt 10) \<and>
   fst (create_product env0 numeric_name state0) =
     error_response ''Internal server error'' 500 \<and>
   validate env0 gadget (snd (create_product env0 widget state0)) =
     Inr (Finite False 3 0, JInt 0) \<and>
   fst (create_product env0 gadget (snd (create_product env0 widget state0))) =
     error_response ''SKU already exists'' 409"
  by code_simp

text \<open>
  C10 (a name or a sku that is no string). For every payload that passes the five
  validation steps and whose name or sku is not a string, the handler answers 500
  "Internal server error", never a 400; no table changes, the session is idle again
  (rolled back), and the exception is logged. When \<^verbatim>\<open>begin()\<close> itself did not fail,
  the exception is the \<^verbatim>\<open>AttributeError\<close> of \<^verbatim>\<open>.strip()\<close>, raised with the transaction
  open.
\<close>

theorem non_string_name_or_sku:
  assumes "validate E d s = Inr (pr, q)"
    and "py_getitem d ''name'' = Inr nv" and "py_getitem d ''sku'' = Inr sv"
    and "\<not> is_str nv \<or> \<not> is_str sv"
  shows "fst (create_product E d s) = error_response ''Internal server error'' 500 \<and>
         products (snd (create_product E d s)) = products s \<and>
         inventories (snd (create_product E d s)) = inventories s \<and>
         idle (snd (create_product E d s)) \<and>
         (\<exists>e. error_log (snd (create_product E d s)) = error_log s @ [e]) \<and>
         (begin_fault E = None \<longrightarrow>
            try_body E d s = (Raise AttributeError, s\<lparr>in_txn := True\<rparr>) \<and>
            error_log (snd (create_product E d s)) = error_log s @ [AttributeError])"
proof (cases "begin_fault E")
  case None
  with assms(1) new_product_not_str[OF assms(2-4)]
  have tb: "try_body E d s = (Raise AttributeError, s\<lparr>in_txn := True\<rparr>)"
    by (simp add: try_body_def transaction_def session_begin_def)
  then show ?thesis using None
    by (simp add: create_product_def session_rollback_def idle_def)
next
  case (Some m)
  with assms(1) have tb: "try_body E d s = (Raise (DBError m), s)"
    by (simp add: try_body_def transaction_def session_begin_def)
  then show ?thesis using Some
    by (simp add: create_product_def session_rollback_def idle_def)
qed

theorem non_string_name_or_sku_witness:
  "fst (create_product env0 numeric_name state0) =
     error_response ''Internal server error'' 500 \<and>
   products (snd (create_product env0 numeric_name state0)) = [] \<and>
   inventories (snd (create_product env0 numeric_name state0)) = [] \<and>
   idle (snd (create_product env0 numeric_name state0)) \<and>
   error_log (snd (create_product env0 numeric_name state0)) = [AttributeError]"
proof -
  have v: "validate env0 numeric_name state0 = Inr (Finite False 999 (- 2), JInt 10)"
    by code_simp
  have n: "py_getitem numeric_name ''name'' = Inr (JInt 5)" by code_simp
  have k: "py_getitem numeric_name ''sku'' = Inr (JStr '' abc-1 '')" by code_simp
  have t: "\<not> is_str (JInt 5) \<or> \<not> is_str (JStr '' abc-1 '')" by simp
  have e: "begin_fault env0 = None" "products state0 = []" "inventories state0 = []"
    "error_log state0 = []" by code_simp+
  from non_string_name_or_sku[OF v n k t] e show ?thesis by simp
qed

text \<open>
  C9 (any other failure). For every request that finds the session idle: when the
  \<^verbatim>\<open>try\<close> block raises an exception that is no \<^verbatim>\<open>IntegrityError\<close>, the handler answers
  exactly 500 "Internal server error", a body that does not depend on the exception, and
  returns the state it found, rolled back, with that exception appended to the log. And
  on every path, the session is idle again when the handler returns.
\<close>

theorem generic_failure:
  assumes "idle s"
  shows "(fst (try_body E d s) = Raise e \<and> \<not> is_integrity e \<longrightarrow>
            create_product E d s =
              (\<lparr>status = 500, body = [(''error'', JStr ''Internal server error'')]\<rparr>,
               s\<lparr>error_log := error_log s @ [e]\<rparr>)) \<and>
         idle (snd (create_product E d s))"
proof (intro conjI impI)
  assume h: "fst (try_body E d s) = Raise e \<and> \<not> is_integrity e"
  then obtain s1 where tb: "try_body E d s = (Raise e, s1)"
    by (cases "try_body E d s") simp
  from try_body_Raise[OF assms tb] have rb: "session_rollback s1 = s" .
  have "error_log s1 = error_log (session_rollback s1)" by (simp add: session_rollback_def)
  with rb have el: "error_log s1 = error_log s" by simp
  from h tb rb el
  show "create_product E d s =
      (\<lparr>status = 500, body = [(''error'', JStr ''Internal server error'')]\<rparr>,
       s\<lparr>error_log := error_log s @ [e]\<rparr>)"
    by (cases e) (simp_all add: create_product_def error_response_def)
next
  show "idle (snd (create_product E d s))" using assms by (rule created_idle)
qed

theorem generic_failure_witness:
  "create_product env_flush_fails widget state0 =
     (\<lparr>status = 500, body = [(''error'', JStr ''Internal server error'')]\<rparr>,
      state0\<lparr>error_log := [DBError ''server closed the connection unexpectedly'']\<rparr>) \<and>
   idle (snd (create_product env_flush_fails widget state0)) \<and>
   idle (snd (create_product env0 widget state0))"
proof -
  have i: "idle state0" by code_simp
  have a: "fst (try_body env_flush_fails widget state0) =
      Raise (DBError ''server closed the connection unexpectedly'')" by code_simp
  have b: "\<not> is_integrity (DBError ''server closed the connection unexpectedly'')" by simp
  have c: "error_log state0 = []" by code_simp
  note g = generic_failure[OF i, of env_flush_fails widget
      "DBError ''server closed the connection unexpectedly''"]
  from g a b c have 1: "create_product env_flush_fails widget state0 =
     (\<lparr>status = 500, body = [(''error'', JStr ''Internal server error'')]\<rparr>,
      state0\<lparr>error_log := [DBError ''server closed the connection unexpectedly'']\<rparr>)"
    by simp
  from g have 2: "idle (snd (create_product env_flush_fails widget state0))" by blast
  from generic_failure[OF i, of env0 widget TypeError]
  have 3: "idle (snd (create_product env0 widget state0))" by blast
  from 1 2 3 show ?thesis by blast
qed

end
